theory Spec2Isabelle
  imports Complex_Main
begin

section \<open>NumPy indexing, errors and the amino-acid alphabet\<close>

text \<open>
  The energies are NumPy float arrays; they are modelled over \<^typ>\<open>real\<close>, with every
  exception the Python can raise written out as a value of the type \<open>error\<close>.
  An array is its shape together with a function from indices to entries; an index is
  checked against the shape before the function is applied.
\<close>

datatype error =
    IndexError       \<comment> \<open>an index outside its axis, or a float array used as an index\<close>
  | ValueError       \<comment> \<open>operands that do not broadcast\<close>
  | WrongKind        \<comment> \<open>\<^verbatim>\<open>Exception("Wrong kind of decoy generation selected")\<close>\<close>
  | LengthMismatch   \<comment> \<open>the length error that the specification requires of the frustration module\<close>

text \<open>An index \<open>i\<close> on an axis of size \<open>n\<close>: valid when \<open>-n \<le> i < n\<close>, negative
  indices count from the end.\<close>

definition in_bounds :: "nat \<Rightarrow> int \<Rightarrow> bool" where
  "in_bounds n i \<longleftrightarrow> - int n \<le> i \<and> i < int n"

definition wrap :: "nat \<Rightarrow> int \<Rightarrow> nat" where
  "wrap n i = (if i < 0 then nat (int n + i) else nat i)"

text \<open>\<^verbatim>\<open>AA = '-ACDEFGHIKLMNPQRSTVWY'\<close> and \<^verbatim>\<open>AA.find(aa)\<close>: the position of the first
  occurrence, \<open>-1\<close> when there is none.\<close>

definition AA :: string where
  "AA = ''-ACDEFGHIKLMNPQRSTVWY''"

fun find_from :: "string \<Rightarrow> char \<Rightarrow> int \<Rightarrow> int" where
  "find_from [] c k = - 1"
| "find_from (x # xs) c k = (if x = c then k else find_from xs c (k + 1))"

definition str_find :: "string \<Rightarrow> char \<Rightarrow> int" where
  "str_find s c = find_from s c 0"

text \<open>\<^verbatim>\<open>seq_index = np.array([AA.find(aa) for aa in seq])\<close>\<close>

definition seq_index :: "string \<Rightarrow> int list" where
  "seq_index seq = map (str_find AA) seq"

text \<open>The symbol index that NumPy reads for position \<open>i\<close> of a sequence.\<close>

definition symbol_at :: "string \<Rightarrow> nat \<Rightarrow> nat" where
  "symbol_at seq i = wrap 21 (seq_index seq ! i)"

section \<open>The Potts model and the distance matrix\<close>

text \<open>
  The loaded model: \<^verbatim>\<open>potts_model['h']\<close> of shape \<open>(L, 21)\<close> and \<^verbatim>\<open>potts_model['J']\<close>
  of shape \<open>(L, L, 21, 21)\<close>.
\<close>

record potts_model =
  pm_L :: nat
  pm_h :: "nat \<Rightarrow> nat \<Rightarrow> real"
  pm_J :: "nat \<Rightarrow> nat \<Rightarrow> nat \<Rightarrow> nat \<Rightarrow> real"

text \<open>A two-dimensional array such as \<^verbatim>\<open>distance_matrix\<close>.\<close>

record matrix =
  nrows :: nat
  ncols :: nat
  entry :: "nat \<Rightarrow> nat \<Rightarrow> real"

section \<open>The interaction mask\<close>

text \<open>
  Both energy functions of \<^verbatim>\<open>dca_frustratometer.py\<close> build the mask with the same lines:
  \<^verbatim>\<open>
  mask = np.ones([seq_len, seq_len])
  if sequence_distance_cutoff is not None:
      sequence_distance = sdist.squareform(sdist.pdist(np.arange(seq_len)[:, np.newaxis]))
      mask *= sequence_distance > sequence_distance_cutoff
  if distance_cutoff is not None:
      mask *= distance_matrix <= distance_cutoff
  \<close>
  The in-place product raises \<open>ValueError\<close> when \<^verbatim>\<open>distance_matrix\<close> does not broadcast
  to \<open>(seq_len, seq_len)\<close>.
\<close>

definition sequence_distance :: "nat \<Rightarrow> nat \<Rightarrow> real" where
  "sequence_distance i j = \<bar>real i - real j\<bar>"

definition broadcastable :: "matrix \<Rightarrow> nat \<Rightarrow> bool" where
  "broadcastable D n \<longleftrightarrow> (nrows D = n \<or> nrows D = 1) \<and> (ncols D = n \<or> ncols D = 1)"

definition broadcast :: "matrix \<Rightarrow> nat \<Rightarrow> nat \<Rightarrow> real" where
  "broadcast D i j = entry D (if nrows D = 1 then 0 else i) (if ncols D = 1 then 0 else j)"

definition mask_construction ::
  "nat \<Rightarrow> matrix \<Rightarrow> real option \<Rightarrow> int option \<Rightarrow> error + (nat \<Rightarrow> nat \<Rightarrow> real)" where
  "mask_construction seq_len distance_matrix distance_cutoff sequence_distance_cutoff =
     (let ones = (\<lambda>i j. 1);
          msk = (case sequence_distance_cutoff of
                    None \<Rightarrow> ones
                  | Some c \<Rightarrow> (\<lambda>i j. ones i j * of_bool (sequence_distance i j > real_of_int c)))
      in case distance_cutoff of
           None \<Rightarrow> Inr msk
         | Some d \<Rightarrow>
             if broadcastable distance_matrix seq_len
             then Inr (\<lambda>i j. msk i j * of_bool (broadcast distance_matrix i j \<le> d))
             else Inl ValueError)"

section \<open>Native energy\<close>

text \<open>
  \<^verbatim>\<open>h = -potts_model['h'][range(seq_len), seq_index]\<close>: entry \<open>p\<close> is \<open>-h[p, s\<^sub>p]\<close>;
  an index out of range raises \<open>IndexError\<close>.
\<close>

definition native_h :: "potts_model \<Rightarrow> int list \<Rightarrow> error + (nat \<Rightarrow> real)" where
  "native_h potts_model s =
     (if list_all (\<lambda>p. p < pm_L potts_model \<and> in_bounds 21 (s ! p)) [0..<length s]
      then Inr (\<lambda>p. - pm_h potts_model p (wrap 21 (s ! p)))
      else Inl IndexError)"

text \<open>
  \<^verbatim>\<open>potts_model['J'][range(seq_len), :, seq_index, :]\<close>: the two index arrays are separated
  by a slice, the result has shape \<open>(seq_len, L, 21)\<close> and entry \<open>[p, k, b]\<close> is
  \<open>J[p, k, s\<^sub>p, b]\<close>.
\<close>

definition J_rows :: "potts_model \<Rightarrow> int list \<Rightarrow> error + (nat \<Rightarrow> nat \<Rightarrow> nat \<Rightarrow> real)" where
  "J_rows potts_model s =
     (if list_all (\<lambda>p. p < pm_L potts_model \<and> in_bounds 21 (s ! p)) [0..<length s]
      then Inr (\<lambda>p k b. pm_J potts_model p k (wrap 21 (s ! p)) b)
      else Inl IndexError)"

text \<open>
  \<^verbatim>\<open>R[:, range(seq_len), seq_index]\<close> on that array \<open>R\<close>, whose second axis has size \<open>L\<close>:
  shape \<open>(seq_len, seq_len)\<close>, entry \<open>[p, q]\<close> is \<open>R[p, q, s\<^sub>q]\<close>.
\<close>

definition J_pairs ::
  "nat \<Rightarrow> (nat \<Rightarrow> nat \<Rightarrow> nat \<Rightarrow> real) \<Rightarrow> int list \<Rightarrow> error + (nat \<Rightarrow> nat \<Rightarrow> real)" where
  "J_pairs L R s =
     (if list_all (\<lambda>q. q < L \<and> in_bounds 21 (s ! q)) [0..<length s]
      then Inr (\<lambda>p q. R p q (wrap 21 (s ! q)))
      else Inl IndexError)"

text \<open>
  \<^verbatim>\<open>compute_native_energy\<close> of \<^verbatim>\<open>dca_frustratometer.py\<close>; the model file is taken as
  already loaded. For the empty sequence \<^verbatim>\<open>np.array([])\<close> is a float array, and indexing
  with it raises \<open>IndexError\<close>.
\<close>

definition compute_native_energy ::
  "string \<Rightarrow> potts_model \<Rightarrow> matrix \<Rightarrow> real option \<Rightarrow> int option \<Rightarrow> error + real" where
  "compute_native_energy seq potts_model distance_matrix distance_cutoff sequence_distance_cutoff =
     (let s = seq_index seq; seq_len = length s in
      if s = [] then Inl IndexError
      else case native_h potts_model s of Inl e \<Rightarrow> Inl e | Inr h \<Rightarrow>
           case J_rows potts_model s of Inl e \<Rightarrow> Inl e | Inr R \<Rightarrow>
           case J_pairs (pm_L potts_model) R s of Inl e \<Rightarrow> Inl e | Inr J_native \<Rightarrow>
           case mask_construction seq_len distance_matrix distance_cutoff sequence_distance_cutoff of
             Inl e \<Rightarrow> Inl e
           | Inr msk \<Rightarrow>
               let j = (\<lambda>p q. - J_native p q);
                   j_prime = (\<lambda>p q. j p q * msk p q)
               in Inr ((\<Sum>p<seq_len. h p) + (\<Sum>p<seq_len. \<Sum>q<seq_len. j_prime p q) / 2))"

section \<open>Single-residue decoy energies\<close>

text \<open>
  \<^verbatim>\<open>
  decoys = np.repeat(np.repeat(np.array(seq_index)[np.newaxis, np.newaxis, :], 21, 1), seq_len, 0)
  for i in range(21):
      decoys[range(seq_len), i, range(seq_len)] = i
  \<close>
  Entry \<open>[m, a, p]\<close> of \<^verbatim>\<open>decoys\<close> is the symbol at position \<open>p\<close> of the sequence in
  which position \<open>m\<close> is replaced by symbol \<open>a\<close>. The three index grids of
  \<^verbatim>\<open>np.meshgrid(..., indexing='ij')\<close> are \<open>mut_pos[m, a, p] = m\<close>, \<open>mut_aa[m, a, p] = a\<close>
  and \<open>seq_pos[m, a, p] = p\<close>.
\<close>

definition decoys :: "int list \<Rightarrow> nat \<Rightarrow> nat \<Rightarrow> nat \<Rightarrow> int" where
  "decoys s m a p = (if p = m then int a else s ! p)"

text \<open>Every position index lies on an axis of size \<open>L\<close> and every symbol index on an
  axis of size 21; otherwise the indexing raises \<open>IndexError\<close>.\<close>

definition decoy_indices_ok :: "nat \<Rightarrow> int list \<Rightarrow> bool" where
  "decoy_indices_ok L s \<longleftrightarrow>
     list_all (\<lambda>m. list_all (\<lambda>a. list_all (\<lambda>p. p < L \<and> in_bounds 21 (decoys s m a p))
       [0..<length s]) [0..<21]) [0..<length s]"

text \<open>\<^verbatim>\<open>h_decoy = -potts_model['h'][seq_pos, decoys]\<close>\<close>

definition decoy_h :: "potts_model \<Rightarrow> int list \<Rightarrow> error + (nat \<Rightarrow> nat \<Rightarrow> nat \<Rightarrow> real)" where
  "decoy_h potts_model s =
     (if decoy_indices_ok (pm_L potts_model) s
      then Inr (\<lambda>m a p. - pm_h potts_model p (wrap 21 (decoys s m a p)))
      else Inl IndexError)"

text \<open>\<^verbatim>\<open>potts_model['J'][seq_pos, :, decoys, :]\<close>, of shape \<open>(seq_len, 21, seq_len, L, 21)\<close>:
  entry \<open>[m, a, p, k, b]\<close> is \<open>J[p, k, decoys[m, a, p], b]\<close>.\<close>

definition J_decoy_rows ::
  "potts_model \<Rightarrow> int list \<Rightarrow> error + (nat \<Rightarrow> nat \<Rightarrow> nat \<Rightarrow> nat \<Rightarrow> nat \<Rightarrow> real)" where
  "J_decoy_rows potts_model s =
     (if decoy_indices_ok (pm_L potts_model) s
      then Inr (\<lambda>m a p k b. pm_J potts_model p k (wrap 21 (decoys s m a p)) b)
      else Inl IndexError)"

text \<open>\<^verbatim>\<open>R[mut_pos, mut_aa, :, seq_pos, decoys]\<close> on that array \<open>R\<close>: the index arrays are
  separated by a slice, so their common shape comes first and the sliced axis last; entry
  \<open>[m, a, p, q]\<close> is \<open>R[m, a, q, p, decoys[m, a, p]]\<close>.\<close>

definition J_decoy_pairs ::
  "nat \<Rightarrow> (nat \<Rightarrow> nat \<Rightarrow> nat \<Rightarrow> nat \<Rightarrow> nat \<Rightarrow> real) \<Rightarrow> int list
   \<Rightarrow> error + (nat \<Rightarrow> nat \<Rightarrow> nat \<Rightarrow> nat \<Rightarrow> real)" where
  "J_decoy_pairs L R s =
     (if decoy_indices_ok L s
      then Inr (\<lambda>m a p q. R m a q p (wrap 21 (decoys s m a p)))
      else Inl IndexError)"

text \<open>\<^verbatim>\<open>compute_singleresidue_decoy_energy\<close>: the result has shape \<open>(seq_len, 21)\<close>;
  the mask broadcasts over the last two axes of \<^verbatim>\<open>j_decoy\<close>.\<close>

definition compute_singleresidue_decoy_energy ::
  "string \<Rightarrow> potts_model \<Rightarrow> matrix \<Rightarrow> real option \<Rightarrow> int option \<Rightarrow> error + (nat \<Rightarrow> nat \<Rightarrow> real)" where
  "compute_singleresidue_decoy_energy seq potts_model distance_matrix distance_cutoff
       sequence_distance_cutoff =
     (let s = seq_index seq; seq_len = length s in
      if s = [] then Inl IndexError
      else case decoy_h potts_model s of Inl e \<Rightarrow> Inl e | Inr h_decoy \<Rightarrow>
           case J_decoy_rows potts_model s of Inl e \<Rightarrow> Inl e | Inr R \<Rightarrow>
           case J_decoy_pairs (pm_L potts_model) R s of Inl e \<Rightarrow> Inl e | Inr J_decoy \<Rightarrow>
           case mask_construction seq_len distance_matrix distance_cutoff sequence_distance_cutoff of
             Inl e \<Rightarrow> Inl e
           | Inr msk \<Rightarrow>
               let j_decoy = (\<lambda>m a p q. - J_decoy m a p q);
                   j_decoy_prime = (\<lambda>m a p q. j_decoy m a p q * msk p q)
               in Inr (\<lambda>m a. (\<Sum>p<seq_len. h_decoy m a p)
                          + (\<Sum>p<seq_len. \<Sum>q<seq_len. j_decoy_prime m a p q) / 2))"

section \<open>Single-residue frustration\<close>

text \<open>
  A float is a real number or one of the IEEE special values; rounding and the sign of zero
  are left out. Division by zero raises nothing in NumPy: it gives \<open>inf\<close>, \<open>-inf\<close> or
  \<open>nan\<close>.
\<close>

datatype fval = Finite real | PosInf | NegInf | NaN

fun fneg :: "fval \<Rightarrow> fval" where
  "fneg (Finite x) = Finite (- x)"
| "fneg PosInf = NegInf"
| "fneg NegInf = PosInf"
| "fneg NaN = NaN"

fun fadd :: "fval \<Rightarrow> fval \<Rightarrow> fval" where
  "fadd (Finite x) (Finite y) = Finite (x + y)"
| "fadd NaN _ = NaN"
| "fadd _ NaN = NaN"
| "fadd PosInf NegInf = NaN"
| "fadd NegInf PosInf = NaN"
| "fadd PosInf _ = PosInf"
| "fadd _ PosInf = PosInf"
| "fadd NegInf _ = NegInf"
| "fadd _ NegInf = NegInf"

definition fsub :: "fval \<Rightarrow> fval \<Rightarrow> fval" where
  "fsub x y = fadd x (fneg y)"

definition signed_inf :: "bool \<Rightarrow> fval" where
  "signed_inf positive = (if positive then PosInf else NegInf)"

fun fmul :: "fval \<Rightarrow> fval \<Rightarrow> fval" where
  "fmul (Finite x) (Finite y) = Finite (x * y)"
| "fmul NaN _ = NaN"
| "fmul _ NaN = NaN"
| "fmul (Finite x) PosInf = (if x = 0 then NaN else signed_inf (0 < x))"
| "fmul (Finite x) NegInf = (if x = 0 then NaN else signed_inf (x < 0))"
| "fmul PosInf (Finite y) = (if y = 0 then NaN else signed_inf (0 < y))"
| "fmul NegInf (Finite y) = (if y = 0 then NaN else signed_inf (y < 0))"
| "fmul PosInf PosInf = PosInf"
| "fmul NegInf NegInf = PosInf"
| "fmul PosInf NegInf = NegInf"
| "fmul NegInf PosInf = NegInf"

fun fdiv :: "fval \<Rightarrow> fval \<Rightarrow> fval" where
  "fdiv (Finite x) (Finite y) =
     (if y \<noteq> 0 then Finite (x / y) else if x = 0 then NaN else signed_inf (0 < x))"
| "fdiv NaN _ = NaN"
| "fdiv _ NaN = NaN"
| "fdiv (Finite x) PosInf = Finite 0"
| "fdiv (Finite x) NegInf = Finite 0"
| "fdiv PosInf (Finite y) = signed_inf (0 \<le> y)"
| "fdiv NegInf (Finite y) = signed_inf (y < 0)"
| "fdiv PosInf _ = NaN"
| "fdiv NegInf _ = NaN"

fun fsqrt :: "fval \<Rightarrow> fval" where
  "fsqrt (Finite x) = (if x < 0 then NaN else Finite (sqrt x))"
| "fsqrt PosInf = PosInf"
| "fsqrt NegInf = NaN"
| "fsqrt NaN = NaN"

definition fsum :: "fval list \<Rightarrow> fval" where
  "fsum xs = foldl fadd (Finite 0) xs"

text \<open>
  \<^verbatim>\<open>
  def compute_singleresidue_frustration(decoy_energy, native_energy, aa_freq=None):
      if aa_freq is None:
          aa_freq = np.ones(21)
      mean_energy = (aa_freq * decoy_energy).sum(axis=1) / aa_freq.sum()
      std_energy = np.sqrt(((aa_freq * (decoy_energy - mean_energy[:, np.newaxis]) ** 2)
                            / aa_freq.sum()).sum(axis=1))
      frustration = (native_energy - mean_energy) / std_energy
      return frustration
  \<close>
  \<^verbatim>\<open>aa_freq\<close> of length \<open>k\<close> broadcasts against the \<open>c\<close> columns of \<^verbatim>\<open>decoy_energy\<close>
  when \<open>k = c\<close> or one of them is 1; otherwise the product raises \<open>ValueError\<close>.
\<close>

definition compute_singleresidue_frustration ::
  "matrix \<Rightarrow> real \<Rightarrow> real list option \<Rightarrow> error + fval list" where
  "compute_singleresidue_frustration decoy_energy native_energy aa_freq_arg =
     (let aa_freq = (case aa_freq_arg of None \<Rightarrow> replicate 21 1 | Some w \<Rightarrow> w);
          k = length aa_freq;
          c = ncols decoy_energy
      in if \<not> (k = c \<or> k = 1 \<or> c = 1) then Inl ValueError
         else
           let n = (if k = 1 then c else k);
               w = (\<lambda>a. Finite (aa_freq ! (if k = 1 then 0 else a)));
               d = (\<lambda>i a. Finite (entry decoy_energy i (if c = 1 then 0 else a)));
               total = fsum (map (\<lambda>a. Finite (aa_freq ! a)) [0..<k]);
               mean_energy = (\<lambda>i. fdiv (fsum (map (\<lambda>a. fmul (w a) (d i a)) [0..<n])) total);
               std_energy = (\<lambda>i. fsqrt (fsum (map (\<lambda>a.
                  fdiv (fmul (w a) (fmul (fsub (d i a) (mean_energy i))
                                        (fsub (d i a) (mean_energy i)))) total) [0..<n])))
           in Inr (map (\<lambda>i. fdiv (fsub (Finite native_energy) (mean_energy i)) (std_energy i))
                       [0..<nrows decoy_energy]))"

text \<open>
  The frustration index in the words of the specification: the weighted mean and the
  weighted standard deviation of a row of decoy energies over the 21 symbols, and the
  uniform weights used when none are supplied.
\<close>

definition weighted_mean :: "real list \<Rightarrow> (nat \<Rightarrow> real) \<Rightarrow> real" where
  "weighted_mean w x = (\<Sum>a<21. w ! a * x a) / (\<Sum>a<21. w ! a)"

definition weighted_std :: "real list \<Rightarrow> (nat \<Rightarrow> real) \<Rightarrow> real" where
  "weighted_std w x =
     sqrt ((\<Sum>a<21. w ! a * (x a - weighted_mean w x)\<^sup>2) / (\<Sum>a<21. w ! a))"

definition uniform_weights :: "real list" where
  "uniform_weights = replicate 21 1"

section \<open>The functions of the frustration module\<close>

text \<open>
  The class \<^verbatim>\<open>Frustratometer\<close> calls functions of
  \<^verbatim>\<open>frustratometer/frustration/frustration.py\<close>, a file that is not among the sources; only
  its list of exported names is. They take the model and the mask as arrays, the mask of
  shape \<open>(L, L)\<close>. A fluctuation tensor has two axes (position, symbol) for the
  single-residue kind and four (position, position, symbol, symbol) for the pair kinds.
\<close>

datatype tensor = Tensor2 "nat \<Rightarrow> nat \<Rightarrow> real" | Tensor4 "nat \<Rightarrow> nat \<Rightarrow> nat \<Rightarrow> nat \<Rightarrow> real"

text \<open>
  Modelled from the spec: the summands of \<^verbatim>\<open>frustration.compute_native_energy\<close>, which
  is missing. The entries used are the negated model values; with a gap-ignoring flag set, the
  field of a position holding the gap symbol (index 0) is zeroed, and a coupling is zeroed
  when either partner is a gap.
\<close>

definition gap_field :: "string \<Rightarrow> potts_model \<Rightarrow> bool \<Rightarrow> nat \<Rightarrow> real" where
  "gap_field seq potts_model ignore_fields_of_gaps i =
     (if ignore_fields_of_gaps \<and> symbol_at seq i = 0 then 0
      else - pm_h potts_model i (symbol_at seq i))"

definition gap_coupling :: "string \<Rightarrow> potts_model \<Rightarrow> bool \<Rightarrow> nat \<Rightarrow> nat \<Rightarrow> real" where
  "gap_coupling seq potts_model ignore_couplings_of_gaps i j =
     (if ignore_couplings_of_gaps \<and> (symbol_at seq i = 0 \<or> symbol_at seq j = 0) then 0
      else - pm_J potts_model i j (symbol_at seq i) (symbol_at seq j))"

text \<open>
  Modelled from the spec: \<^verbatim>\<open>frustration.compute_native_energy\<close>, which is missing:
  \<open>E = \<Sum>\<^sub>i h[i, seq\<^sub>i] + (1/2) \<Sum>\<^sub>i\<^sub>j J[i, j, seq\<^sub>i, seq\<^sub>j] mask[i, j]\<close> on the negated
  and gap-zeroed entries; a sequence whose length is not \<open>L\<close> is an error.
\<close>

definition frustration_compute_native_energy ::
  "string \<Rightarrow> potts_model \<Rightarrow> (nat \<Rightarrow> nat \<Rightarrow> real) \<Rightarrow> bool \<Rightarrow> bool \<Rightarrow> error + real" where
  "frustration_compute_native_energy seq potts_model msk ignore_couplings_of_gaps
       ignore_fields_of_gaps =
     (if length seq \<noteq> pm_L potts_model then Inl LengthMismatch
      else Inr ((\<Sum>i<length seq. gap_field seq potts_model ignore_fields_of_gaps i)
                + (1 / 2) * (\<Sum>i<length seq. \<Sum>j<length seq.
                     gap_coupling seq potts_model ignore_couplings_of_gaps i j * msk i j)))"

text \<open>
  Modelled from the spec: \<^verbatim>\<open>frustration.compute_fields_energy\<close> and
  \<^verbatim>\<open>frustration.compute_couplings_energy\<close>, which are missing: the field-only and the
  coupling-only variant expose the two summands of the native energy separately.
\<close>

definition compute_fields_energy :: "string \<Rightarrow> potts_model \<Rightarrow> bool \<Rightarrow> error + real" where
  "compute_fields_energy seq potts_model ignore_fields_of_gaps =
     (if length seq \<noteq> pm_L potts_model then Inl LengthMismatch
      else Inr (\<Sum>i<length seq. gap_field seq potts_model ignore_fields_of_gaps i))"

definition compute_couplings_energy ::
  "string \<Rightarrow> potts_model \<Rightarrow> (nat \<Rightarrow> nat \<Rightarrow> real) \<Rightarrow> bool \<Rightarrow> error + real" where
  "compute_couplings_energy seq potts_model msk ignore_couplings_of_gaps =
     (if length seq \<noteq> pm_L potts_model then Inl LengthMismatch
      else Inr ((1 / 2) * (\<Sum>i<length seq. \<Sum>j<length seq.
                     gap_coupling seq potts_model ignore_couplings_of_gaps i j * msk i j)))"

text \<open>
  Modelled from the spec: \<^verbatim>\<open>frustration.compute_singleresidue_decoy_energy_fluctuation\<close>,
  which is missing: for every position \<open>i\<close> and symbol \<open>a\<close> the fluctuation is
  \<open>[h[i, a] - h[i, seq\<^sub>i]] + \<Sum>\<^sub>j\<^sub>\<noteq>\<^sub>i [J[i, j, a, seq\<^sub>j] - J[i, j, seq\<^sub>i, seq\<^sub>j]] mask[i, j]\<close>
  on the negated entries.
\<close>

definition compute_singleresidue_decoy_energy_fluctuation ::
  "string \<Rightarrow> potts_model \<Rightarrow> (nat \<Rightarrow> nat \<Rightarrow> real) \<Rightarrow> error + tensor" where
  "compute_singleresidue_decoy_energy_fluctuation seq potts_model msk =
     (if length seq \<noteq> pm_L potts_model then Inl LengthMismatch
      else Inr (Tensor2 (\<lambda>i a.
             ((- pm_h potts_model i a) - (- pm_h potts_model i (symbol_at seq i)))
           + (\<Sum>j\<leftarrow>filter (\<lambda>j. j \<noteq> i) [0..<length seq].
                ((- pm_J potts_model i j a (symbol_at seq j))
                 - (- pm_J potts_model i j (symbol_at seq i) (symbol_at seq j))) * msk i j))))"

text \<open>
  Modelled from the spec: the energy of a sequence given by its symbol indices, and the
  fluctuation functions of the three pair kinds, which are missing. For all three the
  entry \<open>[i, j, a, b]\<close> is the energy of the sequence with positions \<open>i\<close> and \<open>j\<close> jointly
  replaced by \<open>a\<close> and \<open>b\<close>, minus the native energy; the configurational kind has the
  same tensor as the mutational one, and the contact kind is restricted to the pairs for
  which the mask holds.
\<close>

definition potts_energy :: "potts_model \<Rightarrow> (nat \<Rightarrow> nat \<Rightarrow> real) \<Rightarrow> (nat \<Rightarrow> nat) \<Rightarrow> real" where
  "potts_energy potts_model msk s =
     (\<Sum>i<pm_L potts_model. - pm_h potts_model i (s i))
     + (1 / 2) * (\<Sum>i<pm_L potts_model. \<Sum>j<pm_L potts_model.
          (- pm_J potts_model i j (s i) (s j)) * msk i j)"

definition compute_mutational_decoy_energy_fluctuation ::
  "string \<Rightarrow> potts_model \<Rightarrow> (nat \<Rightarrow> nat \<Rightarrow> real) \<Rightarrow> error + tensor" where
  "compute_mutational_decoy_energy_fluctuation seq potts_model msk =
     (if length seq \<noteq> pm_L potts_model then Inl LengthMismatch
      else Inr (Tensor4 (\<lambda>i j a b.
             potts_energy potts_model msk ((symbol_at seq)(i := a, j := b))
             - potts_energy potts_model msk (symbol_at seq))))"

definition compute_configurational_decoy_energy_fluctuation ::
  "string \<Rightarrow> potts_model \<Rightarrow> (nat \<Rightarrow> nat \<Rightarrow> real) \<Rightarrow> error + tensor" where
  "compute_configurational_decoy_energy_fluctuation seq potts_model msk =
     compute_mutational_decoy_energy_fluctuation seq potts_model msk"

definition compute_contact_decoy_energy_fluctuation ::
  "string \<Rightarrow> potts_model \<Rightarrow> (nat \<Rightarrow> nat \<Rightarrow> real) \<Rightarrow> error + tensor" where
  "compute_contact_decoy_energy_fluctuation seq potts_model msk =
     (if length seq \<noteq> pm_L potts_model then Inl LengthMismatch
      else Inr (Tensor4 (\<lambda>i j a b.
             (potts_energy potts_model msk ((symbol_at seq)(i := a, j := b))
              - potts_energy potts_model msk (symbol_at seq)) * of_bool (msk i j \<noteq> 0))))"

section \<open>The class Frustratometer\<close>

text \<open>
  The attributes that the energy methods read and write: \<^verbatim>\<open>self.sequence\<close>,
  \<^verbatim>\<open>self.potts_model\<close>, \<^verbatim>\<open>self.mask\<close>, and the two caches \<^verbatim>\<open>self._native_energy\<close> and
  \<^verbatim>\<open>self._decoy_fluctuation\<close> (a dictionary from the kind to a tensor). A method is a
  function from the object to its result and the updated object.
\<close>

record frustratometer =
  self_sequence :: string
  self_potts_model :: potts_model
  self_mask :: "nat \<Rightarrow> nat \<Rightarrow> real"
  self_native_energy :: "real option"
  self_decoy_fluctuation :: "string \<rightharpoonup> tensor"

text \<open>
  \<^verbatim>\<open>
  def native_energy(self, sequence=None, ignore_couplings_of_gaps=False, ignore_fields_of_gaps=False):
      if sequence is None:
          sequence = self.sequence
      else:
          return frustration.compute_native_energy(sequence, self.potts_model, self.mask,
                                                   ignore_couplings_of_gaps, ignore_fields_of_gaps)
      if not self._native_energy:
          self._native_energy = frustration.compute_native_energy(sequence, self.potts_model, self.mask,
                                                                  ignore_couplings_of_gaps, ignore_fields_of_gaps)
      energy_value = self._native_energy
      return energy_value
  \<close>
  \<^verbatim>\<open>not self._native_energy\<close> holds for \<^verbatim>\<open>None\<close> and for \<open>0.0\<close>.
\<close>

definition native_energy ::
  "frustratometer \<Rightarrow> string option \<Rightarrow> bool \<Rightarrow> bool \<Rightarrow> (error + real) \<times> frustratometer" where
  "native_energy self sequence ignore_couplings_of_gaps ignore_fields_of_gaps =
     (case sequence of
        Some seq \<Rightarrow>
          (frustration_compute_native_energy seq (self_potts_model self) (self_mask self)
             ignore_couplings_of_gaps ignore_fields_of_gaps, self)
      | None \<Rightarrow>
          (case self_native_energy self of
             Some cached \<Rightarrow>
               if cached \<noteq> 0 then (Inr cached, self)
               else (case frustration_compute_native_energy (self_sequence self)
                            (self_potts_model self) (self_mask self)
                            ignore_couplings_of_gaps ignore_fields_of_gaps of
                       Inl e \<Rightarrow> (Inl e, self)
                     | Inr v \<Rightarrow> (Inr v, self\<lparr>self_native_energy := Some v\<rparr>))
           | None \<Rightarrow>
               (case frustration_compute_native_energy (self_sequence self)
                            (self_potts_model self) (self_mask self)
                            ignore_couplings_of_gaps ignore_fields_of_gaps of
                       Inl e \<Rightarrow> (Inl e, self)
                     | Inr v \<Rightarrow> (Inr v, self\<lparr>self_native_energy := Some v\<rparr>))))"

text \<open>\<^verbatim>\<open>fields_energy\<close> and \<^verbatim>\<open>couplings_energy\<close> replace a missing sequence by
  \<^verbatim>\<open>self.sequence\<close> and call the module; they write nothing.\<close>

definition fields_energy :: "frustratometer \<Rightarrow> string option \<Rightarrow> bool \<Rightarrow> error + real" where
  "fields_energy self sequence ignore_fields_of_gaps =
     compute_fields_energy (case sequence of None \<Rightarrow> self_sequence self | Some seq \<Rightarrow> seq)
       (self_potts_model self) ignore_fields_of_gaps"

definition couplings_energy :: "frustratometer \<Rightarrow> string option \<Rightarrow> bool \<Rightarrow> error + real" where
  "couplings_energy self sequence ignore_couplings_of_gaps =
     compute_couplings_energy (case sequence of None \<Rightarrow> self_sequence self | Some seq \<Rightarrow> seq)
       (self_potts_model self) (self_mask self) ignore_couplings_of_gaps"

text \<open>
  \<^verbatim>\<open>
  def decoy_fluctuation(self, sequence=None, kind='singleresidue', mask=None):
      if sequence is None:
          sequence = self.sequence
          if kind in self._decoy_fluctuation:
              return self._decoy_fluctuation[kind]
      if not isinstance(mask, np.ndarray):
          mask = self.mask
      if kind == 'singleresidue':
          fluctuation = frustration.compute_singleresidue_decoy_energy_fluctuation(sequence, self.potts_model, mask)
      elif kind == 'mutational': ...
      elif kind == 'configurational': ...
      elif kind == 'contact': ...
      else:
          raise Exception("Wrong kind of decoy generation selected")
      self._decoy_fluctuation[kind] = fluctuation
      return fluctuation
  \<close>
  The chain of comparisons on \<^verbatim>\<open>kind\<close> is \<open>compute_fluctuation\<close>.
\<close>

definition compute_fluctuation ::
  "string \<Rightarrow> string \<Rightarrow> potts_model \<Rightarrow> (nat \<Rightarrow> nat \<Rightarrow> real) \<Rightarrow> error + tensor" where
  "compute_fluctuation kind seq potts_model msk =
     (if kind = ''singleresidue''
        then compute_singleresidue_decoy_energy_fluctuation seq potts_model msk
      else if kind = ''mutational''
        then compute_mutational_decoy_energy_fluctuation seq potts_model msk
      else if kind = ''configurational''
        then compute_configurational_decoy_energy_fluctuation seq potts_model msk
      else if kind = ''contact''
        then compute_contact_decoy_energy_fluctuation seq potts_model msk
      else Inl WrongKind)"

definition decoy_fluctuation ::
  "frustratometer \<Rightarrow> string option \<Rightarrow> string \<Rightarrow> (nat \<Rightarrow> nat \<Rightarrow> real) option
   \<Rightarrow> (error + tensor) \<times> frustratometer" where
  "decoy_fluctuation self sequence kind mask_arg =
     (let compute = (\<lambda>seq.
            case compute_fluctuation kind seq (self_potts_model self)
                   (case mask_arg of None \<Rightarrow> self_mask self | Some m \<Rightarrow> m) of
              Inl e \<Rightarrow> (Inl e, self)
            | Inr fluctuation \<Rightarrow>
                (Inr fluctuation,
                 self\<lparr>self_decoy_fluctuation := (self_decoy_fluctuation self)(kind \<mapsto> fluctuation)\<rparr>))
      in case sequence of
           Some seq \<Rightarrow> compute seq
         | None \<Rightarrow>
             (case self_decoy_fluctuation self kind of
                Some cached \<Rightarrow> (Inr cached, self)
              | None \<Rightarrow> compute (self_sequence self)))"

text \<open>An entry of a single-residue tensor, when the call returned one.\<close>

definition tensor2_entry :: "error + tensor \<Rightarrow> nat \<Rightarrow> nat \<Rightarrow> real option" where
  "tensor2_entry r i a = (case r of Inr (Tensor2 t) \<Rightarrow> Some (t i a) | _ \<Rightarrow> None)"

section \<open>Reading results\<close>

text \<open>An entry of a two-dimensional result, when the call that produced it did not raise.\<close>

definition entry_of :: "error + (nat \<Rightarrow> nat \<Rightarrow> real) \<Rightarrow> nat \<Rightarrow> nat \<Rightarrow> error + real" where
  "entry_of r i j = (case r of Inl e \<Rightarrow> Inl e | Inr m \<Rightarrow> Inr (m i j))"

text \<open>The sequence in which every character outside \<^verbatim>\<open>AA\<close> is replaced by \<^verbatim>\<open>'Y'\<close>.\<close>

definition read_unknown_as_Y :: "string \<Rightarrow> string" where
  "read_unknown_as_Y seq = map (\<lambda>aa. if aa \<in> set AA then aa else CHR ''Y'') seq"

section \<open>Concrete inputs\<close>

definition toy_model :: potts_model where
  "toy_model = \<lparr>pm_L = 2, pm_h = (\<lambda>i a. real (i + a)),
                 pm_J = (\<lambda>i j a b. real (i + 2 * j + a * b))\<rparr>"

definition toy_distances :: matrix where
  "toy_distances = \<lparr>nrows = 2, ncols = 2, entry = (\<lambda>i j. if i = j then 0 else 3)\<rparr>"

definition flat_decoy_energy :: matrix where
  "flat_decoy_energy = \<lparr>nrows = 1, ncols = 21, entry = (\<lambda>i a. 1)\<rparr>"

definition toy_decoy_energy :: matrix where
  "toy_decoy_energy =
     \<lparr>nrows = 1, ncols = 21, entry = (\<lambda>i a. if a = 0 then 0 else if a = 1 then 2 else 1)\<rparr>"

definition toy_aa_freq :: "real list" where
  "toy_aa_freq = 1 # 1 # replicate 19 0"


text \<open>An object for the one-letter sequence \<^verbatim>\<open>'-'\<close>, with empty caches.\<close>

definition gap_model :: potts_model where
  "gap_model = \<lparr>pm_L = 1, pm_h = (\<lambda>i a. real a + 1), pm_J = (\<lambda>i j a b. 0)\<rparr>"

definition gap_object :: frustratometer where
  "gap_object = \<lparr>self_sequence = ''-'', self_potts_model = gap_model, self_mask = (\<lambda>i j. 0),
                  self_native_energy = None, self_decoy_fluctuation = Map.empty\<rparr>"

text \<open>An object for the sequence \<^verbatim>\<open>'-AC'\<close> with every pair of distinct positions in
  contact, and the same object after a call \<^verbatim>\<open>native_energy()\<close>.\<close>

definition gapped_model :: potts_model where
  "gapped_model = \<lparr>pm_L = 3, pm_h = (\<lambda>i a. real a + 1), pm_J = (\<lambda>i j a b. 1)\<rparr>"

definition gapped_object :: frustratometer where
  "gapped_object =
     \<lparr>self_sequence = ''-AC'', self_potts_model = gapped_model,
      self_mask = (\<lambda>i j. of_bool (i \<noteq> j)),
      self_native_energy = None, self_decoy_fluctuation = Map.empty\<rparr>"

definition warm_object :: frustratometer where
  "warm_object = snd (native_energy gapped_object None False False)"

section \<open>Facts about indices\<close>

lemma find_from_range: "find_from s c k = - 1 \<or> (k \<le> find_from s c k \<and> find_from s c k < k + int (length s))"
  by (induction s arbitrary: k) (auto, force+)

lemma str_find_AA_bounds: "in_bounds 21 (str_find AA c)"
  using find_from_range [of AA c 0] by (auto simp: str_find_def in_bounds_def AA_def)

lemma seq_index_in_bounds: "p < length seq \<Longrightarrow> in_bounds 21 (seq_index seq ! p)"
  by (simp add: seq_index_def str_find_AA_bounds)

lemma length_seq_index [simp]: "length (seq_index seq) = length seq"
  by (simp add: seq_index_def)

lemma seq_index_Nil [simp]: "seq_index seq = [] \<longleftrightarrow> seq = []"
  by (simp add: seq_index_def)

lemma indices_ok:
  "length seq \<le> L \<Longrightarrow>
   list_all (\<lambda>p. p < L \<and> in_bounds 21 (seq_index seq ! p)) [0..<length (seq_index seq)]"
  by (simp add: list_all_iff seq_index_in_bounds)

lemma native_h_ok:
  "length seq \<le> pm_L pm \<Longrightarrow>
   native_h pm (seq_index seq) = Inr (\<lambda>p. - pm_h pm p (wrap 21 (seq_index seq ! p)))"
  unfolding native_h_def using indices_ok [of seq "pm_L pm"] by simp

lemma J_rows_ok:
  "length seq \<le> pm_L pm \<Longrightarrow>
   J_rows pm (seq_index seq) = Inr (\<lambda>p k b. pm_J pm p k (wrap 21 (seq_index seq ! p)) b)"
  unfolding J_rows_def using indices_ok [of seq "pm_L pm"] by simp

lemma J_pairs_ok:
  "length seq \<le> L \<Longrightarrow>
   J_pairs L R (seq_index seq) = Inr (\<lambda>p q. R p q (wrap 21 (seq_index seq ! q)))"
  unfolding J_pairs_def using indices_ok [of seq L] by simp

lemma compute_native_energy_ok:
  assumes "seq \<noteq> []" and "length seq \<le> pm_L pm"
    and "mask_construction (length seq) D dc sc = Inr msk"
  shows "compute_native_energy seq pm D dc sc =
         Inr ((\<Sum>p<length seq. - pm_h pm p (symbol_at seq p))
              + (\<Sum>p<length seq. \<Sum>q<length seq.
                   (- pm_J pm p q (symbol_at seq p) (symbol_at seq q)) * msk p q) / 2)"
  using assms
  by (simp add: compute_native_energy_def Let_def native_h_ok J_rows_ok J_pairs_ok symbol_at_def)

lemma in_bounds_of_nat: "a < 21 \<Longrightarrow> in_bounds 21 (int a)"
  by (simp add: in_bounds_def)

lemma decoy_indices_ok_seq:
  "length seq \<le> L \<Longrightarrow> decoy_indices_ok L (seq_index seq)"
  by (auto simp: decoy_indices_ok_def list_all_iff decoys_def seq_index_in_bounds in_bounds_of_nat)

lemma wrap_less: "in_bounds n i \<Longrightarrow> wrap n i < n"
  by (auto simp: in_bounds_def wrap_def)

lemma wrap_of_nat [simp]: "wrap n (int k) = k"
  by (simp add: wrap_def)


lemma compute_singleresidue_decoy_energy_ok:
  assumes "seq \<noteq> []" and "length seq \<le> pm_L pm"
    and "mask_construction (length seq) D dc sc = Inr msk"
  shows "compute_singleresidue_decoy_energy seq pm D dc sc =
         Inr (\<lambda>m a. (\<Sum>p<length seq. - pm_h pm p (wrap 21 (decoys (seq_index seq) m a p)))
              + (\<Sum>p<length seq. \<Sum>q<length seq.
                   (- pm_J pm q p (wrap 21 (decoys (seq_index seq) m a q))
                         (wrap 21 (decoys (seq_index seq) m a p))) * msk p q) / 2)"
  using assms decoy_indices_ok_seq [of seq "pm_L pm"]
  by (simp add: compute_singleresidue_decoy_energy_def Let_def decoy_h_def J_decoy_rows_def
      J_decoy_pairs_def)


section \<open>Facts about the mask\<close>

lemma mask_construction_entries:
  "mask_construction n D dc sc = Inr msk \<Longrightarrow>
   msk i j = of_bool ((case sc of None \<Rightarrow> True | Some c \<Rightarrow> sequence_distance i j > real_of_int c)
                   \<and> (case dc of None \<Rightarrow> True | Some d \<Rightarrow> broadcast D i j \<le> d))"
  by (auto simp: mask_construction_def Let_def split: option.splits if_splits)

lemma mask_construction_no_distance_cutoff:
  "\<exists>msk. mask_construction n D None sc = Inr msk"
  by (simp add: mask_construction_def Let_def)

lemma mask_construction_not_broadcastable:
  "\<not> broadcastable D n \<Longrightarrow> mask_construction n D (Some d) sc = Inl ValueError"
  by (simp add: mask_construction_def Let_def)

section \<open>Unknown characters\<close>

lemma str_find_notin: "c \<notin> set s \<Longrightarrow> find_from s c k = - 1"
  by (induction s arbitrary: k) auto

lemma str_find_Y: "str_find AA CHR ''Y'' = 20"
  by (simp add: str_find_def AA_def)

lemma wrap_read_unknown:
  "wrap 21 (str_find AA (if aa \<in> set AA then aa else CHR ''Y'')) = wrap 21 (str_find AA aa)"
proof (cases "aa \<in> set AA")
  case True
  then show ?thesis by simp
next
  case False
  then have "str_find AA aa = - 1" by (simp add: str_find_def str_find_notin)
  with False show ?thesis by (simp add: str_find_Y wrap_def)
qed

lemma length_read_unknown [simp]: "length (read_unknown_as_Y seq) = length seq"
  by (simp add: read_unknown_as_Y_def)

lemma read_unknown_Nil [simp]: "read_unknown_as_Y seq = [] \<longleftrightarrow> seq = []"
  by (simp add: read_unknown_as_Y_def)

lemma symbol_at_read_unknown:
  "p < length seq \<Longrightarrow> symbol_at (read_unknown_as_Y seq) p = symbol_at seq p"
  by (simp add: symbol_at_def seq_index_def read_unknown_as_Y_def wrap_read_unknown)

lemma decoys_read_unknown:
  "p < length seq \<Longrightarrow>
   wrap 21 (decoys (seq_index (read_unknown_as_Y seq)) m a p)
   = wrap 21 (decoys (seq_index seq) m a p)"
  by (simp add: decoys_def seq_index_def read_unknown_as_Y_def wrap_read_unknown)

section \<open>Length mismatch\<close>

lemma native_h_long:
  "pm_L pm < length s \<Longrightarrow> native_h pm s = Inl IndexError"
  by (auto simp: native_h_def list_all_iff)

lemma compute_native_energy_long:
  "pm_L pm < length seq \<Longrightarrow> compute_native_energy seq pm D dc sc = Inl IndexError"
  by (auto simp: compute_native_energy_def Let_def native_h_long)

section \<open>Evaluation on the concrete inputs\<close>

lemma toy_mask:
  "mask_construction (pm_L toy_model) toy_distances (Some 4) (Some 0)
   = Inr (\<lambda>i j. 1 * of_bool (sequence_distance i j > real_of_int 0)
                 * of_bool (broadcast toy_distances i j \<le> 4))"
  by (simp add: mask_construction_def toy_model_def toy_distances_def broadcastable_def)

lemma toy_mask_len:
  "mask_construction (length [a, b :: char]) toy_distances (Some 4) (Some 0)
   = Inr (\<lambda>i j. 1 * of_bool (sequence_distance i j > real_of_int 0)
                 * of_bool (broadcast toy_distances i j \<le> 4))"
  using toy_mask by (simp add: toy_model_def numeral_2_eq_2)

lemma symbol_at_AY: "symbol_at ''AY'' 0 = 1" "symbol_at ''AY'' (Suc 0) = 20"
  by (simp_all add: symbol_at_def seq_index_def str_find_def AA_def wrap_def)

lemma native_energy_AY:
  "compute_native_energy ''AY'' toy_model toy_distances (Some 4) (Some 0) = Inr (- 87 / 2)"
  using compute_native_energy_ok [OF _ _ toy_mask_len, of "CHR ''A''" "CHR ''Y''" toy_model]
  by (simp add: toy_model_def toy_distances_def broadcast_def sequence_distance_def
      symbol_at_AY eval_nat_numeral)

lemma symbol_at_AC: "symbol_at ''AC'' 0 = 1" "symbol_at ''AC'' (Suc 0) = 2"
  by (simp_all add: symbol_at_def seq_index_def str_find_def AA_def wrap_def)

section \<open>Facts about the frustration index\<close>

lemma foldl_fadd_Finite:
  "foldl fadd (Finite s) (map (\<lambda>a. Finite (f a)) xs) = Finite (s + sum_list (map f xs))"
  by (induction xs arbitrary: s) (simp_all add: add.assoc)

lemma fsum_Finite: "fsum (map (\<lambda>a. Finite (f a)) [0..<n]) = Finite (\<Sum>a<n. f a)"
  by (simp add: fsum_def foldl_fadd_Finite interv_sum_list_conv_sum_set_nat atLeast0LessThan)

lemma weighted_variance_nonneg:
  fixes w :: "real list" and x :: "nat \<Rightarrow> real"
  assumes "\<forall>a<21. 0 \<le> w ! a" and "0 < (\<Sum>a<21. w ! a)"
  shows "0 \<le> (\<Sum>a<21. w ! a * (x a - m)\<^sup>2 / (\<Sum>a<21. w ! a))"
proof (rule sum_nonneg)
  fix a :: nat
  assume "a \<in> {..<21}"
  then have "0 \<le> w ! a" using assms(1) by simp
  then show "0 \<le> w ! a * (x a - m)\<^sup>2 / (\<Sum>a<21. w ! a)"
    using assms(2) by (intro divide_nonneg_pos mult_nonneg_nonneg) simp_all
qed

lemma frustration_entries:
  assumes "ncols decoy_energy = 21" and "length w = 21"
    and "\<forall>a<21. 0 \<le> w ! a" and "0 < (\<Sum>a<21. w ! a)"
  shows "compute_singleresidue_frustration decoy_energy native (Some w) =
         Inr (map (\<lambda>i. fdiv (Finite (native - weighted_mean w (entry decoy_energy i)))
                            (Finite (weighted_std w (entry decoy_energy i))))
                  [0..<nrows decoy_energy])"
proof -
  let ?W = "\<Sum>a<21. w ! a"
  have W: "?W \<noteq> 0" using assms(4) by simp
  have v: "\<not> (\<Sum>a<21. w ! a * ((x a - m) * (x a - m)) / ?W) < 0" for x m
    using weighted_variance_nonneg [OF assms(3,4), of x m] by (simp add: power2_eq_square)
  show ?thesis
    using W v
    by (simp add: compute_singleresidue_frustration_def Let_def assms(1,2) fsum_Finite fsub_def
        weighted_mean_def weighted_std_def power2_eq_square sum_divide_distrib)
qed

lemma frustration_default:
  "compute_singleresidue_frustration decoy_energy native None
   = compute_singleresidue_frustration decoy_energy native (Some uniform_weights)"
  by (simp add: compute_singleresidue_frustration_def uniform_weights_def)

lemma fdiv_nonzero: "y \<noteq> 0 \<Longrightarrow> fdiv (Finite x) (Finite y) = Finite (x / y)"
  by simp

lemma fdiv_zero:
  "fdiv (Finite x) (Finite 0) = (if x = 0 then NaN else if 0 < x then PosInf else NegInf)"
  by (simp add: signed_inf_def)

lemma toy_aa_freq_facts:
  "length toy_aa_freq = 21" "\<forall>a<21. 0 \<le> toy_aa_freq ! a" "(\<Sum>a<21. toy_aa_freq ! a) = 2"
  by (simp_all add: toy_aa_freq_def nth_Cons' eval_nat_numeral)

lemma toy_weighted_mean: "weighted_mean toy_aa_freq (entry toy_decoy_energy 0) = 1"
  by (simp add: weighted_mean_def toy_aa_freq_facts(3))
     (simp add: toy_aa_freq_def toy_decoy_energy_def eval_nat_numeral)

lemma toy_weighted_std: "weighted_std toy_aa_freq (entry toy_decoy_energy 0) = 1"
  by (simp add: weighted_std_def toy_weighted_mean toy_aa_freq_facts(3))
     (simp add: toy_aa_freq_def toy_decoy_energy_def eval_nat_numeral)

lemma singleton_list: "length xs = 1 \<Longrightarrow> xs ! 0 = x \<Longrightarrow> xs = [x]"
  by (cases xs) auto

lemma flat_uniform:
  "length uniform_weights = 21" "\<forall>a<21. 0 \<le> uniform_weights ! a"
  "0 < (\<Sum>a<21. uniform_weights ! a)"
  "weighted_mean uniform_weights (entry flat_decoy_energy 0) = 1"
  "weighted_std uniform_weights (entry flat_decoy_energy 0) = 0"
proof -
  show "length uniform_weights = 21" "\<forall>a<21. 0 \<le> uniform_weights ! a"
    "0 < (\<Sum>a<21. uniform_weights ! a)"
    by (simp_all add: uniform_weights_def)
  show m: "weighted_mean uniform_weights (entry flat_decoy_energy 0) = 1"
    by (simp add: weighted_mean_def uniform_weights_def flat_decoy_energy_def)
  show "weighted_std uniform_weights (entry flat_decoy_energy 0) = 0"
    by (simp add: weighted_std_def m) (simp add: flat_decoy_energy_def)
qed

section \<open>Facts about the class methods\<close>

lemma native_energy_explicit:
  "native_energy self (Some seq) icg ifg =
   (frustration_compute_native_energy seq (self_potts_model self) (self_mask self) icg ifg, self)"
  by (simp add: native_energy_def)

lemma native_energy_fresh:
  "self_native_energy self = None \<Longrightarrow>
   fst (native_energy self None icg ifg) =
   frustration_compute_native_energy (self_sequence self) (self_potts_model self)
     (self_mask self) icg ifg"
  by (simp add: native_energy_def split: sum.splits)

lemma native_energy_cached:
  "self_native_energy self = Some v \<Longrightarrow> v \<noteq> 0 \<Longrightarrow>
   native_energy self None icg ifg = (Inr v, self)"
  by (simp add: native_energy_def)

lemma decoy_fluctuation_cached:
  "self_decoy_fluctuation self kind = Some t \<Longrightarrow>
   decoy_fluctuation self None kind mask_arg = (Inr t, self)"
  by (simp add: decoy_fluctuation_def)

lemma decoy_fluctuation_explicit_stores:
  "compute_fluctuation kind seq (self_potts_model self)
     (case mask_arg of None \<Rightarrow> self_mask self | Some m \<Rightarrow> m) = Inr t \<Longrightarrow>
   decoy_fluctuation self (Some seq) kind mask_arg =
   (Inr t, self\<lparr>self_decoy_fluctuation := (self_decoy_fluctuation self)(kind \<mapsto> t)\<rparr>)"
  by (simp add: decoy_fluctuation_def)

lemma energy_split:
  assumes "length seq = pm_L pm"
  shows "compute_fields_energy seq pm ifg
           = Inr (\<Sum>i<length seq. gap_field seq pm ifg i)"
    and "compute_couplings_energy seq pm msk icg
           = Inr ((1 / 2) * (\<Sum>i<length seq. \<Sum>j<length seq. gap_coupling seq pm icg i j * msk i j))"
    and "frustration_compute_native_energy seq pm msk icg ifg
           = Inr ((\<Sum>i<length seq. gap_field seq pm ifg i)
                + (1 / 2) * (\<Sum>i<length seq. \<Sum>j<length seq. gap_coupling seq pm icg i j * msk i j))"
  using assms
  by (simp_all add: compute_fields_energy_def compute_couplings_energy_def
      frustration_compute_native_energy_def)

text \<open>Where the sequence is passed, or the native-energy cache is empty, the two parts add
  up to the native energy for every combination of the flags.\<close>

lemma fields_plus_couplings_cold:
  assumes "seq = (case sequence of None \<Rightarrow> self_sequence self | Some s \<Rightarrow> s)"
    and "length seq = pm_L (self_potts_model self)"
    and "sequence \<noteq> None \<or> self_native_energy self = None"
  shows "\<exists>f c n. fields_energy self sequence ignore_fields_of_gaps = Inr f
           \<and> couplings_energy self sequence ignore_couplings_of_gaps = Inr c
           \<and> fst (native_energy self sequence ignore_couplings_of_gaps ignore_fields_of_gaps)
               = Inr n
           \<and> \<bar>f + c - n\<bar> < 1 / 10 ^ 6"
proof -
  have n: "fst (native_energy self sequence ignore_couplings_of_gaps ignore_fields_of_gaps)
           = frustration_compute_native_energy seq (self_potts_model self) (self_mask self)
               ignore_couplings_of_gaps ignore_fields_of_gaps"
    using assms(1,3) by (cases sequence) (simp_all add: native_energy_explicit native_energy_fresh)
  have e: "(case sequence of None \<Rightarrow> self_sequence self | Some s \<Rightarrow> s) = seq"
    using assms(1) by simp
  let ?F = "\<Sum>i<length seq. gap_field seq (self_potts_model self) ignore_fields_of_gaps i"
  let ?C = "(1 / 2) * (\<Sum>i<length seq. \<Sum>j<length seq.
              gap_coupling seq (self_potts_model self) ignore_couplings_of_gaps i j
              * self_mask self i j)"
  have "fields_energy self sequence ignore_fields_of_gaps = Inr ?F"
    and "couplings_energy self sequence ignore_couplings_of_gaps = Inr ?C"
    and "fst (native_energy self sequence ignore_couplings_of_gaps ignore_fields_of_gaps)
         = Inr (?F + ?C)"
    by (simp_all only: n e fields_energy_def couplings_energy_def energy_split [OF assms(2)])
  moreover have "\<bar>?F + ?C - (?F + ?C)\<bar> < 1 / 10 ^ 6"
    by simp
  ultimately show ?thesis
    by blast
qed

lemma symbol_at_gapped:
  "symbol_at ''-AC'' 0 = 0" "symbol_at ''-AC'' (Suc 0) = 1" "symbol_at ''-AC'' (Suc (Suc 0)) = 2"
  by (simp_all add: symbol_at_def seq_index_def str_find_def AA_def wrap_def)

lemma gapped_native:
  "frustration_compute_native_energy ''-AC'' gapped_model (\<lambda>i j. of_bool (i \<noteq> j)) False False
   = Inr (- 9)"
  "frustration_compute_native_energy ''-AC'' gapped_model (\<lambda>i j. of_bool (i \<noteq> j)) True True
   = Inr (- 6)"
  by (simp_all add: frustration_compute_native_energy_def gapped_model_def gap_field_def
      gap_coupling_def symbol_at_gapped)

lemma gapped_parts:
  "compute_fields_energy ''-AC'' gapped_model True = Inr (- 5)"
  "compute_couplings_energy ''-AC'' gapped_model (\<lambda>i j. of_bool (i \<noteq> j)) True = Inr (- 1)"
  by (simp_all add: compute_fields_energy_def compute_couplings_energy_def gapped_model_def
      gap_field_def gap_coupling_def symbol_at_gapped)

lemma warm_object_eq:
  "warm_object = gapped_object\<lparr>self_native_energy := Some (- 9)\<rparr>"
  by (simp add: warm_object_def native_energy_def gapped_object_def gapped_native)

section \<open>Native energy formula\<close>

text \<open>
  C1. For a non-empty sequence \<open>s\<close> whose length is the model dimension \<open>L\<close>, and the
  \<open>L \<times> L\<close> mask that the function builds from its distance arguments, the native energy is
  \<open>\<Sum>\<^sub>i (-h[i, s\<^sub>i]) + (1/2) \<Sum>\<^sub>i\<^sub>j (-J[i, j, s\<^sub>i, s\<^sub>j]) mask[i, j]\<close>.
\<close>

theorem native_energy_formula:
  assumes "seq \<noteq> []" and "length seq = pm_L pm"
    and "mask_construction (pm_L pm) D dc sc = Inr msk"
  shows "compute_native_energy seq pm D dc sc =
         Inr ((\<Sum>i<pm_L pm. - pm_h pm i (symbol_at seq i))
              + (1 / 2) * (\<Sum>i<pm_L pm. \<Sum>j<pm_L pm.
                   (- pm_J pm i j (symbol_at seq i) (symbol_at seq j)) * msk i j))"
  using compute_native_energy_ok [of seq pm D dc sc msk] assms by simp

theorem native_energy_formula_witness:
  "''AC'' \<noteq> [] \<and> length ''AC'' = pm_L toy_model
   \<and> compute_native_energy ''AC'' toy_model toy_distances (Some 4) (Some 0) = Inr (- 15 / 2)"
proof -
  have m: "mask_construction (pm_L toy_model) toy_distances (Some 4) (Some 0)
           = Inr (\<lambda>i j. 1 * of_bool (sequence_distance i j > real_of_int 0)
                         * of_bool (broadcast toy_distances i j \<le> 4))"
    by (simp add: mask_construction_def toy_model_def toy_distances_def broadcastable_def)
  have "compute_native_energy ''AC'' toy_model toy_distances (Some 4) (Some 0) = Inr (- 15 / 2)"
    using native_energy_formula [OF _ _ m, of "''AC''"]
    by (simp add: toy_model_def toy_distances_def broadcast_def sequence_distance_def
        symbol_at_AC eval_nat_numeral)
  then show ?thesis by (simp add: toy_model_def)
qed

section \<open>Self-substitution\<close>




section \<open>Mask symmetry and diagonal\<close>

text \<open>
  C5, as stated: for every distance matrix and every combination of cutoffs the mask is
  symmetric with a zero diagonal. With neither cutoff set the mask is all ones, so its
  diagonal is one.
\<close>

theorem mask_diagonal_counterexample:
  "entry_of (mask_construction 2 toy_distances None None) 0 0 = Inr 1
   \<and> entry_of (mask_construction 2 toy_distances None None) 0 0 \<noteq> Inr 0"
  by (simp add: entry_of_def mask_construction_def)

text \<open>
  C5, amended. For every combination of cutoffs and every distance matrix that is symmetric
  (as broadcast to the mask's shape; any matrix when no distance cutoff is set), the mask is
  symmetric; its diagonal entry \<open>mask[i, i]\<close> is zero exactly when the sequence-separation
  cutoff is set and non-negative, or the distance cutoff is set and smaller than
  \<open>distance_matrix[i, i]\<close>.
\<close>

theorem mask_symmetric_diagonal:
  assumes "mask_construction n D dc sc = Inr msk"
    and "dc = None \<or> (\<forall>i<n. \<forall>j<n. broadcast D i j = broadcast D j i)"
  shows "(\<forall>i<n. \<forall>j<n. msk i j = msk j i)
       \<and> (\<forall>i<n. msk i i = 0 \<longleftrightarrow>
             (case sc of None \<Rightarrow> False | Some c \<Rightarrow> 0 \<le> c)
           \<or> (case dc of None \<Rightarrow> False | Some d \<Rightarrow> d < broadcast D i i))"
  using assms
  by (auto simp: mask_construction_entries [OF assms(1)] sequence_distance_def abs_minus_commute
      split: option.splits)

theorem mask_symmetric_diagonal_witness:
  "broadcast toy_distances 0 1 = broadcast toy_distances 1 0
   \<and> entry_of (mask_construction 2 toy_distances (Some 4) (Some 0)) 0 1 = Inr 1
   \<and> entry_of (mask_construction 2 toy_distances (Some 4) (Some 0)) 1 0 = Inr 1
   \<and> entry_of (mask_construction 2 toy_distances (Some 4) (Some 0)) 0 0 = Inr 0
   \<and> entry_of (mask_construction 2 toy_distances (Some 4) (Some 0)) 1 1 = Inr 0"
proof -
  have s: "\<forall>i<2. \<forall>j<2. broadcast toy_distances i j = broadcast toy_distances j i"
    by (simp add: broadcast_def toy_distances_def)
  have m: "mask_construction 2 toy_distances (Some 4) (Some 0)
           = Inr (\<lambda>i j. 1 * of_bool (sequence_distance i j > real_of_int 0)
                 * of_bool (broadcast toy_distances i j \<le> 4))"
    using toy_mask by (simp add: toy_model_def)
  show ?thesis
    using mask_symmetric_diagonal [OF m disjI2 [OF s]] s
    unfolding entry_of_def m
    by (simp add: sequence_distance_def broadcast_def toy_distances_def)
qed

section \<open>Sequence length against the model dimension\<close>

text \<open>
  C8, as stated: every sequence whose length differs from \<open>L\<close> makes the energy computation
  fail. A one-letter sequence on a model with \<open>L = 2\<close> and no cutoffs returns an energy.
\<close>

theorem short_sequence_counterexample:
  "length ''A'' \<noteq> pm_L toy_model
   \<and> compute_native_energy ''A'' toy_model toy_distances None None = Inr (- 3 / 2)"
proof -
  have m: "mask_construction (length ''A'') toy_distances None None = Inr (\<lambda>i j. 1)"
    by (simp add: mask_construction_def)
  have s: "symbol_at ''A'' 0 = 1"
    by (simp add: symbol_at_def seq_index_def str_find_def AA_def wrap_def)
  show ?thesis
    using compute_native_energy_ok [OF _ _ m, of toy_model]
    by (simp add: toy_model_def s)
qed

text \<open>
  C8, amended. A sequence longer than \<open>L\<close> fails with \<open>IndexError\<close>, raised by the tensor
  indexing itself. A shorter non-empty sequence is not rejected: without a distance cutoff
  the call returns the energy of the model cut down to the first \<open>len(seq)\<close> positions, and
  with a distance cutoff and an \<open>L \<times> L\<close> distance matrix it fails with \<open>ValueError\<close> in
  the mask product, after the indexing.
\<close>

theorem length_mismatch:
  "(pm_L pm < length seq \<longrightarrow> compute_native_energy seq pm D dc sc = Inl IndexError)
   \<and> (seq \<noteq> [] \<and> length seq < pm_L pm \<longrightarrow>
        (\<exists>e. compute_native_energy seq pm D None sc = Inr e
            \<and> compute_native_energy seq (pm\<lparr>pm_L := length seq\<rparr>) D None sc = Inr e))
   \<and> (seq \<noteq> [] \<and> length seq < pm_L pm \<and> nrows D = pm_L pm \<and> ncols D = pm_L pm \<longrightarrow>
        compute_native_energy seq pm D (Some d) sc = Inl ValueError)"
proof (intro conjI impI)
  assume "pm_L pm < length seq"
  then show "compute_native_energy seq pm D dc sc = Inl IndexError"
    by (rule compute_native_energy_long)
next
  assume a: "seq \<noteq> [] \<and> length seq < pm_L pm"
  obtain msk where m: "mask_construction (length seq) D None sc = Inr msk"
    using mask_construction_no_distance_cutoff by blast
  show "\<exists>e. compute_native_energy seq pm D None sc = Inr e
            \<and> compute_native_energy seq (pm\<lparr>pm_L := length seq\<rparr>) D None sc = Inr e"
    using a compute_native_energy_ok [OF _ _ m, of pm]
      compute_native_energy_ok [OF _ _ m, of "pm\<lparr>pm_L := length seq\<rparr>"]
    by simp
next
  assume a: "seq \<noteq> [] \<and> length seq < pm_L pm \<and> nrows D = pm_L pm \<and> ncols D = pm_L pm"
  then have "\<not> broadcastable D (length seq)"
    by (auto simp: broadcastable_def)
  then have "mask_construction (length seq) D (Some d) sc = Inl ValueError"
    by (rule mask_construction_not_broadcastable)
  then show "compute_native_energy seq pm D (Some d) sc = Inl ValueError"
    using a
    by (simp add: compute_native_energy_def Let_def native_h_ok J_rows_ok J_pairs_ok)
qed

theorem length_mismatch_witness:
  "pm_L toy_model < length ''ACD''
   \<and> compute_native_energy ''ACD'' toy_model toy_distances (Some 4) (Some 0) = Inl IndexError
   \<and> ''A'' \<noteq> [] \<and> length ''A'' < pm_L toy_model
   \<and> nrows toy_distances = pm_L toy_model \<and> ncols toy_distances = pm_L toy_model
   \<and> (\<exists>e. compute_native_energy ''A'' toy_model toy_distances None (Some 0) = Inr e)
   \<and> compute_native_energy ''A'' toy_model toy_distances (Some 4) (Some 0) = Inl ValueError"
  using length_mismatch [of toy_model "''ACD''" toy_distances "Some 4" "Some 0"]
    length_mismatch [of toy_model "''A''" toy_distances "Some 4" "Some 0" 4]
  by (auto simp: toy_model_def toy_distances_def)

section \<open>Characters outside the alphabet\<close>

text \<open>
  C10. For a non-empty sequence of the model's length (and distance arguments from which the
  mask can be built), neither energy function raises, whatever characters the sequence
  holds: a character outside \<^verbatim>\<open>AA\<close> is mapped to index \<open>-1\<close>, which NumPy reads as
  symbol 20 (\<^verbatim>\<open>'Y'\<close>), and both functions return what they return for the sequence with
  every such character replaced by \<^verbatim>\<open>'Y'\<close>.
\<close>

theorem unknown_character_read_as_Y:
  assumes "seq \<noteq> []" and "length seq = pm_L pm"
    and "mask_construction (pm_L pm) D dc sc = Inr msk"
  shows "(\<exists>e. compute_native_energy seq pm D dc sc = Inr e
            \<and> compute_native_energy (read_unknown_as_Y seq) pm D dc sc = Inr e)
       \<and> (\<exists>decoy_energy. compute_singleresidue_decoy_energy seq pm D dc sc = Inr decoy_energy
            \<and> compute_singleresidue_decoy_energy (read_unknown_as_Y seq) pm D dc sc
                = Inr decoy_energy)
       \<and> (\<forall>i<length seq. seq ! i \<notin> set AA \<longrightarrow>
              seq_index seq ! i = - 1 \<and> symbol_at seq i = 20
            \<and> read_unknown_as_Y seq ! i = CHR ''Y'')"
proof -
  have m: "mask_construction (length seq) D dc sc = Inr msk"
    "mask_construction (length (read_unknown_as_Y seq)) D dc sc = Inr msk"
    using assms by simp_all
  have ne: "read_unknown_as_Y seq \<noteq> []" using assms(1) by simp
  have le: "length seq \<le> pm_L pm" "length (read_unknown_as_Y seq) \<le> pm_L pm"
    using assms(2) by simp_all
  have 1: "compute_native_energy (read_unknown_as_Y seq) pm D dc sc
           = compute_native_energy seq pm D dc sc"
    by (simp add: compute_native_energy_ok [OF assms(1) le(1) m(1)]
        compute_native_energy_ok [OF ne le(2) m(2)] symbol_at_read_unknown)
  have 2: "compute_singleresidue_decoy_energy (read_unknown_as_Y seq) pm D dc sc
           = compute_singleresidue_decoy_energy seq pm D dc sc"
    by (simp add: compute_singleresidue_decoy_energy_ok [OF assms(1) le(1) m(1)]
        compute_singleresidue_decoy_energy_ok [OF ne le(2) m(2)] decoys_read_unknown)
  have 3: "\<forall>i<length seq. seq ! i \<notin> set AA \<longrightarrow>
              seq_index seq ! i = - 1 \<and> symbol_at seq i = 20
            \<and> read_unknown_as_Y seq ! i = CHR ''Y''"
    by (simp add: symbol_at_def seq_index_def str_find_def str_find_notin wrap_def
        read_unknown_as_Y_def)
  show ?thesis
    using 1 2 3
    by (simp add: compute_native_energy_ok [OF assms(1) le(1) m(1)]
        compute_singleresidue_decoy_energy_ok [OF assms(1) le(1) m(1)])
qed

theorem unknown_character_read_as_Y_witness:
  "''AX'' \<noteq> [] \<and> length ''AX'' = pm_L toy_model \<and> ''AX'' ! 1 \<notin> set AA
   \<and> read_unknown_as_Y ''AX'' = ''AY''
   \<and> compute_native_energy ''AX'' toy_model toy_distances (Some 4) (Some 0) = Inr (- 87 / 2)
   \<and> compute_native_energy ''AY'' toy_model toy_distances (Some 4) (Some 0) = Inr (- 87 / 2)
   \<and> seq_index ''AX'' ! 1 = - 1 \<and> symbol_at ''AX'' 1 = 20"
proof -
  have L: "length ''AX'' = pm_L toy_model" by (simp add: toy_model_def)
  have r: "read_unknown_as_Y ''AX'' = ''AY''" by (simp add: read_unknown_as_Y_def AA_def)
  have x: "''AX'' ! 1 \<notin> set AA" by (simp add: AA_def)
  show ?thesis
    using unknown_character_read_as_Y [OF _ L toy_mask] native_energy_AY x L
    by (auto simp: r)
qed

section \<open>The frustration index\<close>

text \<open>
  C4. For every decoy-energy matrix with 21 columns, every native energy and every
  non-negative 21-entry weight vector with positive total (the uniform weights when none is
  supplied), the call returns one index for each row, and at each row whose weighted standard
  deviation is not zero the index is \<open>(native_energy - mean\<^sub>w) / std\<^sub>w\<close>.
\<close>

theorem singleresidue_frustration_index:
  assumes "ncols decoy_energy = 21"
    and "weights = (case aa_freq of None \<Rightarrow> uniform_weights | Some w \<Rightarrow> w)"
    and "length weights = 21" and "\<forall>a<21. 0 \<le> weights ! a" and "0 < (\<Sum>a<21. weights ! a)"
  shows "\<exists>frustration.
           compute_singleresidue_frustration decoy_energy native aa_freq = Inr frustration
         \<and> length frustration = nrows decoy_energy
         \<and> (\<forall>i<nrows decoy_energy.
               weighted_std weights (entry decoy_energy i) \<noteq> 0 \<longrightarrow>
               frustration ! i =
                 Finite ((native - weighted_mean weights (entry decoy_energy i))
                         / weighted_std weights (entry decoy_energy i)))"
proof -
  have "compute_singleresidue_frustration decoy_energy native aa_freq
        = compute_singleresidue_frustration decoy_energy native (Some weights)"
    using assms(2) by (cases aa_freq) (simp_all add: frustration_default)
  then show ?thesis
    by (simp add: frustration_entries [OF assms(1,3,4,5)])
qed

theorem singleresidue_frustration_index_witness:
  "ncols toy_decoy_energy = 21 \<and> length toy_aa_freq = 21 \<and> 0 < (\<Sum>a<21. toy_aa_freq ! a)
   \<and> weighted_std toy_aa_freq (entry toy_decoy_energy 0) \<noteq> 0
   \<and> compute_singleresidue_frustration toy_decoy_energy 3 (Some toy_aa_freq) = Inr [Finite 2]"
proof -
  have c: "ncols toy_decoy_energy = 21" and n: "nrows toy_decoy_energy = 1"
    by (simp_all add: toy_decoy_energy_def)
  have p: "0 < (\<Sum>a<21. toy_aa_freq ! a)" by (simp add: toy_aa_freq_facts(3))
  obtain fr where fr: "compute_singleresidue_frustration toy_decoy_energy 3 (Some toy_aa_freq) = Inr fr"
    "length fr = 1" "fr ! 0 = Finite 2"
    using singleresidue_frustration_index [OF c _ toy_aa_freq_facts(1,2) p,
        of "Some toy_aa_freq" 3]
    by (auto simp: n toy_weighted_mean toy_weighted_std)
  from fr(2,3) have "fr = [Finite 2]" by (rule singleton_list)
  with fr(1) c p show ?thesis by (simp add: toy_aa_freq_facts(1) toy_weighted_std)
qed

section \<open>Degenerate decoy distributions\<close>

text \<open>
  C7, as stated: a zero weighted standard deviation is signalled to the caller instead of
  producing infinity or NaN. On a constant row the call returns NaN when the native energy
  equals the mean, and infinity when it is above.
\<close>

theorem degenerate_std_counterexample:
  "compute_singleresidue_frustration flat_decoy_energy 1 None = Inr [NaN]
   \<and> compute_singleresidue_frustration flat_decoy_energy 2 None = Inr [PosInf]"
proof -
  have u: "length uniform_weights = 21" "\<forall>a<21. 0 \<le> uniform_weights ! a"
    "0 < (\<Sum>a<21. uniform_weights ! a)"
    by (simp_all add: uniform_weights_def)
  have c: "ncols flat_decoy_energy = 21" by (simp add: flat_decoy_energy_def)
  have m: "weighted_mean uniform_weights (entry flat_decoy_energy 0) = 1"
    by (simp add: weighted_mean_def uniform_weights_def flat_decoy_energy_def)
  have s: "weighted_std uniform_weights (entry flat_decoy_energy 0) = 0"
    by (simp add: weighted_std_def m) (simp add: flat_decoy_energy_def)
  have n: "[0..<nrows flat_decoy_energy] = [0]" by (simp add: flat_decoy_energy_def)
  show ?thesis
    by (simp add: frustration_default frustration_entries [OF c u] n m s signed_inf_def)
qed

text \<open>
  C7, amended. For a decoy-energy matrix with 21 columns and non-negative weights with
  positive total, whenever the weighted standard deviation at a position is zero, the call
  raises nothing and the entry at that position is the result of the unguarded division:
  NaN when the native energy equals the weighted mean, \<open>+inf\<close> when it is above and
  \<open>-inf\<close> when it is below.
\<close>

theorem degenerate_std_unguarded:
  assumes "ncols decoy_energy = 21"
    and "weights = (case aa_freq of None \<Rightarrow> uniform_weights | Some w \<Rightarrow> w)"
    and "length weights = 21" and "\<forall>a<21. 0 \<le> weights ! a" and "0 < (\<Sum>a<21. weights ! a)"
    and "i < nrows decoy_energy"
    and "weighted_std weights (entry decoy_energy i) = 0"
  shows "\<exists>frustration.
           compute_singleresidue_frustration decoy_energy native aa_freq = Inr frustration
         \<and> frustration ! i =
             (if native = weighted_mean weights (entry decoy_energy i) then NaN
              else if weighted_mean weights (entry decoy_energy i) < native then PosInf
              else NegInf)"
proof -
  have "compute_singleresidue_frustration decoy_energy native aa_freq
        = compute_singleresidue_frustration decoy_energy native (Some weights)"
    using assms(2) by (cases aa_freq) (simp_all add: frustration_default)
  then show ?thesis
    using assms(6,7)
    by (simp add: frustration_entries [OF assms(1,3,4,5)] signed_inf_def)
qed

theorem degenerate_std_unguarded_witness:
  "ncols flat_decoy_energy = 21 \<and> (0::nat) < nrows flat_decoy_energy
   \<and> weighted_std uniform_weights (entry flat_decoy_energy 0) = 0
   \<and> compute_singleresidue_frustration flat_decoy_energy 0 None = Inr [NegInf]"
proof -
  have c: "ncols flat_decoy_energy = 21" and n: "nrows flat_decoy_energy = 1"
    by (simp_all add: flat_decoy_energy_def)
  have i: "0 < nrows flat_decoy_energy" by (simp add: n)
  obtain fr where fr: "compute_singleresidue_frustration flat_decoy_energy 0 None = Inr fr"
    "fr ! 0 = NegInf"
    using degenerate_std_unguarded [OF c _ flat_uniform(1,2,3) i flat_uniform(5), of None 0]
    by (auto simp: flat_uniform(4))
  have "length fr = 1"
    using fr(1) by (auto simp: compute_singleresidue_frustration_def Let_def n c)
  with fr(2) have "fr = [NegInf]" by (intro singleton_list)
  with fr(1) c i show ?thesis by (simp add: flat_uniform(5))
qed

section \<open>Fields plus couplings\<close>

text \<open>
  C3. The claim is that \<open>fields_energy(seq) + couplings_energy(seq)\<close> equals
  \<open>native_energy(seq)\<close> within \<open>10\<^sup>-\<^sup>6\<close> for every combination of the two gap-handling
  flags. On the object for \<^verbatim>\<open>'-AC'\<close>, after a call \<^verbatim>\<open>native_energy()\<close>, the calls with
  both flags set give fields \<open>-5\<close> and couplings \<open>-1\<close>, and \<^verbatim>\<open>native_energy\<close> gives the
  cached \<open>-9\<close>; on a fresh object it gives \<open>-6\<close>.
\<close>

theorem fields_plus_couplings_stale_cache:
  "fields_energy warm_object None True = Inr (- 5)
   \<and> couplings_energy warm_object None True = Inr (- 1)
   \<and> fst (native_energy warm_object None True True) = Inr (- 9)
   \<and> fst (native_energy gapped_object None True True) = Inr (- 6)"
  by (simp add: warm_object_eq fields_energy_def couplings_energy_def native_energy_def
      gapped_object_def gapped_native gapped_parts)

section \<open>The native-energy cache\<close>

text \<open>
  C9. The claim is that the energies depend on the arguments only, whatever was called
  before on the same object. On the object for \<^verbatim>\<open>'-'\<close>, the call
  \<^verbatim>\<open>native_energy(ignore_fields_of_gaps=True)\<close> returns 0 when it comes first, and \<open>-1\<close>
  after a call \<^verbatim>\<open>native_energy()\<close>: the cache is read without regard to the flags.
\<close>

theorem native_energy_stale_cache:
  "fst (native_energy gap_object None False True) = Inr 0
   \<and> fst (native_energy (snd (native_energy gap_object None False False)) None False True)
       = Inr (- 1)"
proof -
  have s: "symbol_at ''-'' 0 = 0"
    by (simp add: symbol_at_def seq_index_def str_find_def AA_def wrap_def)
  show ?thesis
    by (simp add: native_energy_def gap_object_def gap_model_def
        frustration_compute_native_energy_def gap_field_def gap_coupling_def s)
qed

section \<open>The decoy-fluctuation cache\<close>

text \<open>
  C6. The claim is that every call returns the tensor of a fresh computation for the passed
  sequence, kind and mask. On the object for \<^verbatim>\<open>'-'\<close>, the call
  \<^verbatim>\<open>decoy_fluctuation(kind='singleresidue')\<close> returns a tensor with entry \<open>[0, 0] = 0\<close> when
  it comes first, and the tensor of \<^verbatim>\<open>'C'\<close>, with entry \<open>[0, 0] = 2\<close>, after a call
  \<^verbatim>\<open>decoy_fluctuation(sequence='C', kind='singleresidue')\<close>: that call stored its result
  under the kind alone.
\<close>

theorem decoy_fluctuation_stale_cache:
  "tensor2_entry (fst (decoy_fluctuation gap_object None ''singleresidue'' None)) 0 0 = Some 0
   \<and> tensor2_entry (fst (decoy_fluctuation
         (snd (decoy_fluctuation gap_object (Some ''C'') ''singleresidue'' None))
         None ''singleresidue'' None)) 0 0 = Some 2"
proof -
  have s: "symbol_at ''-'' 0 = 0" "symbol_at ''C'' 0 = 2"
    by (simp_all add: symbol_at_def seq_index_def str_find_def AA_def wrap_def)
  show ?thesis
    by (simp add: decoy_fluctuation_def compute_fluctuation_def gap_object_def gap_model_def
        compute_singleresidue_decoy_energy_fluctuation_def tensor2_entry_def s)
qed

end
